theory Spec2Isabelle
  imports Complex_Main
begin

section \<open>Curvature interfaces of \<open>laplace/curvature.py\<close>\<close>

text \<open>
  The module computes curvature statistics (generalised Gauss-Newton and empirical Fisher,
  each as a full matrix, a Kronecker factorisation or a diagonal) from what a model and
  the BackPACK differentiation engine deliver. The embedding follows the Python classes
  \<open>CurvatureInterface\<close>, \<open>BackPackInterface\<close>, \<open>BackPackGGN\<close> and \<open>BackPackEF\<close> method by
  method. Tensor entries are real numbers: the arithmetic of the code is read as exact
  arithmetic, rounding is not part of the model.
\<close>

subsection \<open>Errors\<close>

text \<open>
  \<open>AssertionError\<close>, \<open>ValueError\<close> and \<open>NotImplementedError\<close> are raised by the module itself;
  \<open>ZeroDivisionError\<close> by the division \<open>M/N\<close>; \<open>RuntimeError\<close> by torch on an empty \<open>cat\<close> or
  on operands whose shapes do not fit; \<open>AttributeError\<close> by reading a quantity that no
  backward pass has put on a parameter.
\<close>

datatype error =
    AssertionError
  | ValueError
  | NotImplementedError
  | ZeroDivisionError
  | RuntimeError
  | AttributeError

subsection \<open>Tensors\<close>

text \<open>
  A tensor is its shape together with its entries. Keeping the shape apart from the
  entries keeps the inner dimensions of a tensor whose leading dimension is \<open>0\<close>, as torch
  does. Entries outside the shape are never read by the operations below.
\<close>

record tensor1 =
  numel :: nat
  at1 :: "nat \<Rightarrow> real"

record tensor2 =
  nrows :: nat
  ncols :: nat
  at2 :: "nat \<Rightarrow> nat \<Rightarrow> real"

record tensor3 =
  dim0 :: nat
  dim1 :: nat
  dim2 :: nat
  at3 :: "nat \<Rightarrow> nat \<Rightarrow> nat \<Rightarrow> real"

text \<open>\<open>c * t\<close> for a Python float \<open>c\<close> and a tensor \<open>t\<close>.\<close>

definition smul1 :: "real \<Rightarrow> tensor1 \<Rightarrow> tensor1" where
  "smul1 c t = t\<lparr>at1 := \<lambda>i. c * at1 t i\<rparr>"

definition smul2 :: "real \<Rightarrow> tensor2 \<Rightarrow> tensor2" where
  "smul2 c t = t\<lparr>at2 := \<lambda>i j. c * at2 t i j\<rparr>"

text \<open>\<open>torch.cat(ts)\<close> of one-dimensional tensors; torch refuses an empty list.\<close>

fun cat_at1 :: "tensor1 list \<Rightarrow> nat \<Rightarrow> real" where
  "cat_at1 [] j = 0"
| "cat_at1 (t # ts) j = (if j < numel t then at1 t j else cat_at1 ts (j - numel t))"

definition torch_cat :: "tensor1 list \<Rightarrow> error + tensor1" where
  "torch_cat ts =
     (if ts = [] then Inl RuntimeError
      else Inr \<lparr>numel = sum_list (map numel ts), at1 = cat_at1 ts\<rparr>)"

text \<open>
  \<open>torch.cat(ts, dim=1)\<close> of matrices: the row counts have to agree, the columns are laid
  side by side.
\<close>

fun cat_at2 :: "tensor2 list \<Rightarrow> nat \<Rightarrow> nat \<Rightarrow> real" where
  "cat_at2 [] m j = 0"
| "cat_at2 (t # ts) m j = (if j < ncols t then at2 t m j else cat_at2 ts m (j - ncols t))"

definition torch_cat_dim1 :: "tensor2 list \<Rightarrow> error + tensor2" where
  "torch_cat_dim1 ts =
     (if ts = [] then Inl RuntimeError
      else if list_ex (\<lambda>t. nrows t \<noteq> nrows (hd ts)) ts then Inl RuntimeError
      else Inr \<lparr>nrows = nrows (hd ts), ncols = sum_list (map ncols ts), at2 = cat_at2 ts\<rparr>)"

text \<open>\<open>Gs.T\<close> and \<open>A @ B\<close>.\<close>

definition transpose2 :: "tensor2 \<Rightarrow> tensor2" where
  "transpose2 t = \<lparr>nrows = ncols t, ncols = nrows t, at2 = \<lambda>i j. at2 t j i\<rparr>"

definition matmul :: "tensor2 \<Rightarrow> tensor2 \<Rightarrow> error + tensor2" where
  "matmul a b =
     (if ncols a \<noteq> nrows b then Inl RuntimeError
      else Inr \<lparr>nrows = nrows a, ncols = ncols b,
                at2 = \<lambda>i j. \<Sum>m<ncols a. at2 a i m * at2 b m j\<rparr>)"

text \<open>\<open>torch.softmax(f, dim=-1)\<close> of a matrix of logits, one row per example.\<close>

definition softmax :: "tensor2 \<Rightarrow> tensor2" where
  "softmax f = f\<lparr>at2 := \<lambda>m k. exp (at2 f m k) / (\<Sum>j<ncols f. exp (at2 f m j))\<rparr>"

text \<open>\<open>torch.diag_embed(ps)\<close>: each row becomes the diagonal of a square matrix.\<close>

definition diag_embed :: "tensor2 \<Rightarrow> tensor3" where
  "diag_embed ps =
     \<lparr>dim0 = nrows ps, dim1 = ncols ps, dim2 = ncols ps,
      at3 = \<lambda>m c k. if c = k then at2 ps m c else 0\<rparr>"

text \<open>The difference of two tensors of one shape.\<close>

definition sub3 :: "tensor3 \<Rightarrow> tensor3 \<Rightarrow> error + tensor3" where
  "sub3 a b =
     (if dim0 a = dim0 b \<and> dim1 a = dim1 b \<and> dim2 a = dim2 b
      then Inr (a\<lparr>at3 := \<lambda>m c k. at3 a m c k - at3 b m c k\<rparr>)
      else Inl RuntimeError)"

text \<open>
  The three contractions the module writes with \<open>torch.einsum\<close>. An index that two
  operands share has to have one size in both.
\<close>

definition einsum_mkp_mkq_pq :: "tensor3 \<Rightarrow> tensor3 \<Rightarrow> error + tensor2" where
  "einsum_mkp_mkq_pq a b =
     (if dim0 a = dim0 b \<and> dim1 a = dim1 b
      then Inr \<lparr>nrows = dim2 a, ncols = dim2 b,
                at2 = \<lambda>p q. \<Sum>m<dim0 a. \<Sum>k<dim1 a. at3 a m k p * at3 b m k q\<rparr>
      else Inl RuntimeError)"

definition einsum_mk_mc_mck :: "tensor2 \<Rightarrow> tensor2 \<Rightarrow> error + tensor3" where
  "einsum_mk_mc_mck a b =
     (if nrows a = nrows b
      then Inr \<lparr>dim0 = nrows a, dim1 = ncols b, dim2 = ncols a,
                at3 = \<lambda>m c k. at2 a m k * at2 b m c\<rparr>
      else Inl RuntimeError)"

definition einsum_mcp_mck_mkq_pq :: "tensor3 \<Rightarrow> tensor3 \<Rightarrow> tensor3 \<Rightarrow> error + tensor2" where
  "einsum_mcp_mck_mkq_pq a h b =
     (if dim0 a = dim0 h \<and> dim0 h = dim0 b \<and> dim1 a = dim1 h \<and> dim2 h = dim1 b
      then Inr \<lparr>nrows = dim2 a, ncols = dim2 b,
                at2 = \<lambda>p q. \<Sum>m<dim0 a. \<Sum>c<dim1 a. \<Sum>k<dim1 b.
                        at3 a m c p * at3 h m c k * at3 b m k q\<rparr>
      else Inl RuntimeError)"

subsection \<open>Models, loss functions and the differentiation engine\<close>

text \<open>
  A parameter is named by a number. A module enumerates its parameters in a fixed order,
  each parameter once; a model is a module with a forward map from a batch of inputs to
  one row of outputs per example, and with a last layer that is a module itself.
\<close>

type_synonym pid = nat

record torch_module =
  parameters :: "pid list"

record 'x torch_model = torch_module +
  forward :: "'x list \<Rightarrow> tensor2"
  model_last_layer :: torch_module

datatype reduction = Reduction_sum | Reduction_mean | Reduction_none

datatype lossfn = MSELoss reduction | CrossEntropyLoss reduction

datatype extension = DiagGGNExact | DiagGGNMC | KFAC | KFLR | SumGradSquared | BatchGrad

text \<open>The container \<open>Kron\<close> of \<open>laplace.matrix\<close>: one group of factors per parameter.\<close>

record Kron =
  kfacs :: "tensor2 list list"

text \<open>
  What the collaborators outside \<open>curvature.py\<close> compute is a parameter of the
  development: the value of a loss function, the quantity each BackPACK extension leaves
  on a parameter after a backward pass (already flattened the way the module reads it:
  a vector for the diagonal extensions, an examples-by-entries matrix for \<open>BatchGrad\<close>),
  the Jacobian routines of \<open>laplace.jacobians\<close> and the scalar multiplication of \<open>Kron\<close>.
  The Monte-Carlo extensions draw a sample; they read the generator state.
\<close>

record ('x, 'y) engine =
  lossfunc_call :: "lossfn \<Rightarrow> tensor2 \<Rightarrow> 'y list \<Rightarrow> real"
  diag_ggn_exact_of :: "'x torch_model \<Rightarrow> lossfn \<Rightarrow> 'x list \<Rightarrow> 'y list \<Rightarrow> pid \<Rightarrow> tensor1"
  diag_ggn_mc_of :: "nat \<Rightarrow> 'x torch_model \<Rightarrow> lossfn \<Rightarrow> 'x list \<Rightarrow> 'y list \<Rightarrow> pid \<Rightarrow> tensor1"
  kflr_of :: "'x torch_model \<Rightarrow> lossfn \<Rightarrow> 'x list \<Rightarrow> 'y list \<Rightarrow> pid \<Rightarrow> tensor2 list"
  kfac_of :: "nat \<Rightarrow> 'x torch_model \<Rightarrow> lossfn \<Rightarrow> 'x list \<Rightarrow> 'y list \<Rightarrow> pid \<Rightarrow> tensor2 list"
  grad_batch_of :: "'x torch_model \<Rightarrow> lossfn \<Rightarrow> 'x list \<Rightarrow> 'y list \<Rightarrow> pid \<Rightarrow> tensor2"
  jacobians :: "'x torch_model \<Rightarrow> 'x list \<Rightarrow> tensor3 \<times> tensor2"
  last_layer_jacobians :: "'x torch_model \<Rightarrow> 'x list \<Rightarrow> tensor3 \<times> tensor2"
  Kron_rmul :: "real \<Rightarrow> Kron \<Rightarrow> Kron"

text \<open>
  Modelled from the spec: the extension \<open>SumGradSquared\<close> of BackPACK, which is not part of
  the sources. It leaves on each parameter the sum over the examples of the squared
  per-example gradient, entry by entry.
\<close>

definition sum_grad_squared_of :: "tensor2 \<Rightarrow> tensor1" where
  "sum_grad_squared_of gb = \<lparr>numel = ncols gb, at1 = \<lambda>j. \<Sum>m<nrows gb. (at2 gb m j)\<^sup>2\<rparr>"

subsection \<open>The state the module acts on\<close>

text \<open>
  The state holds the trace of the calls made to the engine, the state of the random
  generator, and the quantities the backward passes have put on the parameters
  (\<open>p.diag_ggn_exact\<close>, \<open>p.kflr\<close>, ...).
\<close>

datatype event =
    Extend_module torch_module
  | Extend_lossfunc lossfn
  | Forward
  | Backward extension
  | Jacobians
  | Last_layer_jacobians

record world =
  log :: "event list"
  rng :: nat
  diag_ggn_exact :: "pid \<rightharpoonup> tensor1"
  diag_ggn_mc :: "pid \<rightharpoonup> tensor1"
  kflr :: "pid \<rightharpoonup> tensor2 list"
  kfac :: "pid \<rightharpoonup> tensor2 list"
  sum_grad_squared :: "pid \<rightharpoonup> tensor1"
  grad_batch :: "pid \<rightharpoonup> tensor2"

definition emit :: "event \<Rightarrow> world \<Rightarrow> world" where
  "emit e w = w\<lparr>log := log w @ [e]\<rparr>"

text \<open>Putting a quantity on each parameter of a list, and reading it back.\<close>

definition put_on :: "pid list \<Rightarrow> (pid \<Rightarrow> 'a) \<Rightarrow> (pid \<rightharpoonup> 'a) \<Rightarrow> (pid \<rightharpoonup> 'a)" where
  "put_on ps q old = (\<lambda>p. if p \<in> set ps then Some (q p) else old p)"

fun read_from :: "(pid \<rightharpoonup> 'a) \<Rightarrow> pid list \<Rightarrow> error + 'a list" where
  "read_from store [] = Inr []"
| "read_from store (p # ps) =
     (case store p of
        None \<Rightarrow> Inl AttributeError
      | Some t \<Rightarrow> (case read_from store ps of Inl e \<Rightarrow> Inl e | Inr ts \<Rightarrow> Inr (t # ts)))"

subsection \<open>\<open>CurvatureInterface\<close> and \<open>BackPackInterface\<close>\<close>

record 'x CurvatureInterface =
  model :: "'x torch_model"
  likelihood :: string
  lossfunc :: lossfn
  factor :: real

record 'x BackPackInterface = "'x CurvatureInterface" +
  last_layer :: bool

record 'x BackPackGGN = "'x BackPackInterface" +
  stochastic :: bool

text \<open>\<open>CurvatureInterface.__init__\<close>: the assertion, then the loss function and the factor.\<close>

definition CurvatureInterface_init ::
    "'x torch_model \<Rightarrow> string \<Rightarrow> error + 'x CurvatureInterface" where
  "CurvatureInterface_init mdl lik =
     (if lik \<notin> set [''regression'', ''classification''] then Inl AssertionError
      else if lik = ''regression''
      then Inr \<lparr>model = mdl, likelihood = lik, lossfunc = MSELoss Reduction_sum, factor = 0.5\<rparr>
      else Inr \<lparr>model = mdl, likelihood = lik, lossfunc = CrossEntropyLoss Reduction_sum,
                factor = 1\<rparr>)"

text \<open>The property \<open>_model\<close>.\<close>

definition selected_model :: "('x, 'z) BackPackInterface_scheme \<Rightarrow> torch_module" where
  "selected_model s =
     (if last_layer s then model_last_layer (model s) else torch_module.truncate (model s))"

text \<open>
  \<open>BackPackInterface.__init__\<close>: the base constructor, the flag, then the two calls of
  \<open>extend\<close>, which register the selected module and the loss function with the engine.
\<close>

definition BackPackInterface_init ::
    "'x torch_model \<Rightarrow> string \<Rightarrow> bool \<Rightarrow> world \<Rightarrow> (error + 'x BackPackInterface) \<times> world" where
  "BackPackInterface_init mdl lik ll w =
     (case CurvatureInterface_init mdl lik of
        Inl e \<Rightarrow> (Inl e, w)
      | Inr b \<Rightarrow>
          (let s = CurvatureInterface.extend b \<lparr>last_layer = ll\<rparr>;
               w1 = emit (Extend_module (selected_model s)) w;
               w2 = emit (Extend_lossfunc (lossfunc s)) w1
           in (Inr s, w2)))"

definition BackPackGGN_init ::
    "'x torch_model \<Rightarrow> string \<Rightarrow> bool \<Rightarrow> bool \<Rightarrow> world \<Rightarrow> (error + 'x BackPackGGN) \<times> world" where
  "BackPackGGN_init mdl lik ll st w =
     (case BackPackInterface_init mdl lik ll w of
        (Inl e, w') \<Rightarrow> (Inl e, w')
      | (Inr s, w') \<Rightarrow> (Inr (BackPackInterface.extend s \<lparr>stochastic = st\<rparr>), w'))"

text \<open>\<open>BackPackEF\<close> has no constructor of its own.\<close>

definition BackPackEF_init ::
    "'x torch_model \<Rightarrow> string \<Rightarrow> bool \<Rightarrow> world \<Rightarrow> (error + 'x BackPackInterface) \<times> world" where
  "BackPackEF_init mdl lik ll w = BackPackInterface_init mdl lik ll w"

subsection \<open>Forward and backward passes\<close>

text \<open>
  \<open>f = self.model(X)\<close> runs the whole model, whatever \<open>last_layer\<close> says. A backward pass
  under an extension leaves the extension's quantity on every parameter of the module
  that was extended, which is \<open>_model\<close>; a Monte-Carlo extension also advances the
  generator.
\<close>

definition run_forward ::
    "('x, 'z) BackPackInterface_scheme \<Rightarrow> 'x list \<Rightarrow> world \<Rightarrow> tensor2 \<times> world" where
  "run_forward s X w = (forward (model s) X, emit Forward w)"

fun run_backward ::
    "('x, 'y) engine \<Rightarrow> ('x, 'z) BackPackInterface_scheme \<Rightarrow> extension \<Rightarrow> 'x list \<Rightarrow> 'y list
       \<Rightarrow> world \<Rightarrow> world" where
  "run_backward E s DiagGGNExact X y w =
     (emit (Backward DiagGGNExact) w)
       \<lparr>diag_ggn_exact := put_on (parameters (selected_model s))
          (diag_ggn_exact_of E (model s) (lossfunc s) X y) (diag_ggn_exact w)\<rparr>"
| "run_backward E s DiagGGNMC X y w =
     (emit (Backward DiagGGNMC) w)
       \<lparr>rng := Suc (rng w),
        diag_ggn_mc := put_on (parameters (selected_model s))
          (diag_ggn_mc_of E (rng w) (model s) (lossfunc s) X y) (diag_ggn_mc w)\<rparr>"
| "run_backward E s KFLR X y w =
     (emit (Backward KFLR) w)
       \<lparr>kflr := put_on (parameters (selected_model s))
          (kflr_of E (model s) (lossfunc s) X y) (kflr w)\<rparr>"
| "run_backward E s KFAC X y w =
     (emit (Backward KFAC) w)
       \<lparr>rng := Suc (rng w),
        kfac := put_on (parameters (selected_model s))
          (kfac_of E (rng w) (model s) (lossfunc s) X y) (kfac w)\<rparr>"
| "run_backward E s SumGradSquared X y w =
     (emit (Backward SumGradSquared) w)
       \<lparr>sum_grad_squared := put_on (parameters (selected_model s))
          (\<lambda>p. sum_grad_squared_of (grad_batch_of E (model s) (lossfunc s) X y p))
          (sum_grad_squared w)\<rparr>"
| "run_backward E s BatchGrad X y w =
     (emit (Backward BatchGrad) w)
       \<lparr>grad_batch := put_on (parameters (selected_model s))
          (grad_batch_of E (model s) (lossfunc s) X y) (grad_batch w)\<rparr>"

subsection \<open>\<open>CurvatureInterface._get_full_ggn\<close>\<close>

definition get_full_ggn ::
    "('x, 'y) engine \<Rightarrow> ('x, 'z) CurvatureInterface_scheme \<Rightarrow> tensor3 \<Rightarrow> tensor2 \<Rightarrow> 'y list
       \<Rightarrow> error + real \<times> tensor2" where
  "get_full_ggn E s Js f y =
     (let loss = factor s * lossfunc_call E (lossfunc s) f y in
      if likelihood s = ''regression'' then
        (case einsum_mkp_mkq_pq Js Js of
           Inl e \<Rightarrow> Inl e
         | Inr H_ggn \<Rightarrow> Inr (loss, H_ggn))
      else
        (let ps = softmax f in
         case einsum_mk_mc_mck ps ps of
           Inl e \<Rightarrow> Inl e
         | Inr outer \<Rightarrow>
             (case sub3 (diag_embed ps) outer of
                Inl e \<Rightarrow> Inl e
              | Inr H_lik \<Rightarrow>
                  (case einsum_mcp_mck_mkq_pq Js H_lik Js of
                     Inl e \<Rightarrow> Inl e
                   | Inr H_ggn \<Rightarrow> Inr (loss, H_ggn)))))"

subsection \<open>\<open>BackPackGGN\<close>\<close>

definition get_diag_ggn :: "'x BackPackGGN \<Rightarrow> world \<Rightarrow> error + tensor1" where
  "get_diag_ggn g w =
     (if stochastic g then
        (case read_from (diag_ggn_mc w) (parameters (selected_model g)) of
           Inl e \<Rightarrow> Inl e | Inr ts \<Rightarrow> torch_cat ts)
      else
        (case read_from (diag_ggn_exact w) (parameters (selected_model g)) of
           Inl e \<Rightarrow> Inl e | Inr ts \<Rightarrow> torch_cat ts))"

definition get_kron_factors :: "'x BackPackGGN \<Rightarrow> world \<Rightarrow> error + Kron" where
  "get_kron_factors g w =
     (if stochastic g then
        (case read_from (kfac w) (parameters (selected_model g)) of
           Inl e \<Rightarrow> Inl e | Inr Fs \<Rightarrow> Inr \<lparr>kfacs = Fs\<rparr>)
      else
        (case read_from (kflr w) (parameters (selected_model g)) of
           Inl e \<Rightarrow> Inl e | Inr Fs \<Rightarrow> Inr \<lparr>kfacs = Fs\<rparr>))"

text \<open>
  \<open>_rescale_kron_factors\<close>. \<open>M/N\<close> is Python's true division of the batch size by the
  dataset size: it is evaluated when the loop meets a group of two factors, and raises
  for \<open>N = 0\<close> before that group is touched. No group before it has been changed, since a
  changed group has two factors.
\<close>

definition rescale_group :: "real \<Rightarrow> tensor2 list \<Rightarrow> tensor2 list" where
  "rescale_group c F = (if length F = 2 then F[1 := smul2 c (F ! 1)] else F)"

definition rescale_kron_factors :: "Kron \<Rightarrow> nat \<Rightarrow> int \<Rightarrow> error + Kron" where
  "rescale_kron_factors kron M N =
     (if list_ex (\<lambda>F. length F = 2) (kfacs kron) \<and> N = 0 then Inl ZeroDivisionError
      else Inr (kron\<lparr>kfacs := map (rescale_group (real M / real_of_int N)) (kfacs kron)\<rparr>))"

text \<open>\<open>diag\<close>, \<open>kron\<close> and \<open>full\<close> of the GGN family.\<close>

definition BackPackGGN_diag ::
    "('x, 'y) engine \<Rightarrow> 'x BackPackGGN \<Rightarrow> 'x list \<Rightarrow> 'y list \<Rightarrow> world
       \<Rightarrow> (error + real \<times> tensor1) \<times> world" where
  "BackPackGGN_diag E g X y w =
     (let context = (if stochastic g then DiagGGNMC else DiagGGNExact);
          (f, w1) = run_forward g X w;
          loss = lossfunc_call E (lossfunc g) f y;
          w2 = run_backward E g context X y w1
      in case get_diag_ggn g w2 of
           Inl e \<Rightarrow> (Inl e, w2)
         | Inr dggn \<Rightarrow> (Inr (factor g * loss, smul1 (factor g) dggn), w2))"

text \<open>
  The factors in the container are the very tensors that sit on the parameters, and
  \<open>F[1] *= M/N\<close> changes them in place: after the rescaling the parameters carry the
  rescaled groups.
\<close>

definition write_back_kron :: "'x BackPackGGN \<Rightarrow> Kron \<Rightarrow> world \<Rightarrow> world" where
  "write_back_kron g kron w =
     (let ps = parameters (selected_model g);
          new = map_of (zip ps (kfacs kron))
      in if stochastic g then w\<lparr>kfac := \<lambda>p. if p \<in> set ps then new p else kfac w p\<rparr>
         else w\<lparr>kflr := \<lambda>p. if p \<in> set ps then new p else kflr w p\<rparr>)"

definition BackPackGGN_kron ::
    "('x, 'y) engine \<Rightarrow> 'x BackPackGGN \<Rightarrow> 'x list \<Rightarrow> 'y list \<Rightarrow> int \<Rightarrow> world
       \<Rightarrow> (error + real \<times> Kron) \<times> world" where
  "BackPackGGN_kron E g X y N w =
     (let context = (if stochastic g then KFAC else KFLR);
          (f, w1) = run_forward g X w;
          loss = lossfunc_call E (lossfunc g) f y;
          w2 = run_backward E g context X y w1
      in case get_kron_factors g w2 of
           Inl e \<Rightarrow> (Inl e, w2)
         | Inr kron \<Rightarrow>
             (case rescale_kron_factors kron (length y) N of
                Inl e \<Rightarrow> (Inl e, w2)
              | Inr kron' \<Rightarrow>
                  (Inr (factor g * loss, Kron_rmul E (factor g) kron'),
                   write_back_kron g kron' w2)))"

definition BackPackGGN_full ::
    "('x, 'y) engine \<Rightarrow> 'x BackPackGGN \<Rightarrow> 'x list \<Rightarrow> 'y list \<Rightarrow> world
       \<Rightarrow> (error + real \<times> tensor2) \<times> world" where
  "BackPackGGN_full E g X y w =
     (if stochastic g then (Inl ValueError, w)
      else
        (let ((Js, f), w1) =
               (if last_layer g then (last_layer_jacobians E (model g) X, emit Last_layer_jacobians w)
                else (jacobians E (model g) X, emit Jacobians w))
         in (get_full_ggn E g Js f y, w1)))"

subsection \<open>\<open>BackPackEF\<close>\<close>

definition get_individual_gradients :: "'x BackPackInterface \<Rightarrow> world \<Rightarrow> error + tensor2" where
  "get_individual_gradients s w =
     (case read_from (grad_batch w) (parameters (selected_model s)) of
        Inl e \<Rightarrow> Inl e | Inr ts \<Rightarrow> torch_cat_dim1 ts)"

definition BackPackEF_diag ::
    "('x, 'y) engine \<Rightarrow> 'x BackPackInterface \<Rightarrow> 'x list \<Rightarrow> 'y list \<Rightarrow> world
       \<Rightarrow> (error + real \<times> tensor1) \<times> world" where
  "BackPackEF_diag E s X y w =
     (let (f, w1) = run_forward s X w;
          loss = lossfunc_call E (lossfunc s) f y;
          w2 = run_backward E s SumGradSquared X y w1
      in case read_from (sum_grad_squared w2) (parameters (selected_model s)) of
           Inl e \<Rightarrow> (Inl e, w2)
         | Inr ts \<Rightarrow>
             (case torch_cat ts of
                Inl e \<Rightarrow> (Inl e, w2)
              | Inr diag_EF \<Rightarrow> (Inr (factor s * loss, smul1 (factor s) diag_EF), w2)))"

definition BackPackEF_kron ::
    "('x, 'y) engine \<Rightarrow> 'x BackPackInterface \<Rightarrow> 'x list \<Rightarrow> 'y list \<Rightarrow> world
       \<Rightarrow> (error + real \<times> Kron) \<times> world" where
  "BackPackEF_kron E s X y w = (Inl NotImplementedError, w)"

definition BackPackEF_full ::
    "('x, 'y) engine \<Rightarrow> 'x BackPackInterface \<Rightarrow> 'x list \<Rightarrow> 'y list \<Rightarrow> world
       \<Rightarrow> (error + real \<times> tensor2) \<times> world" where
  "BackPackEF_full E s X y w =
     (let (f, w1) = run_forward s X w;
          loss = lossfunc_call E (lossfunc s) f y;
          w2 = run_backward E s BatchGrad X y w1
      in case get_individual_gradients s w2 of
           Inl e \<Rightarrow> (Inl e, w2)
         | Inr Gs \<Rightarrow>
             (case matmul (transpose2 Gs) Gs of
                Inl e \<Rightarrow> (Inl e, w2)
              | Inr H_ef \<Rightarrow> (Inr (factor s * loss, smul2 (factor s) H_ef), w2)))"

subsection \<open>Quantities the statements refer to\<close>

text \<open>
  The loss before the factor is applied, and the quantity a backward pass of the GGN
  family leaves on a parameter: the exact or the Monte-Carlo one, as \<open>stochastic\<close> says.
\<close>

definition unscaled_loss ::
    "('x, 'y) engine \<Rightarrow> ('x, 'z) CurvatureInterface_scheme \<Rightarrow> 'x list \<Rightarrow> 'y list \<Rightarrow> real" where
  "unscaled_loss E s X y = lossfunc_call E (lossfunc s) (forward (model s) X) y"

definition diag_ggn_quantity ::
    "('x, 'y) engine \<Rightarrow> 'x BackPackGGN \<Rightarrow> 'x list \<Rightarrow> 'y list \<Rightarrow> world \<Rightarrow> pid \<Rightarrow> tensor1" where
  "diag_ggn_quantity E g X y w =
     (if stochastic g then diag_ggn_mc_of E (rng w) (model g) (lossfunc g) X y
      else diag_ggn_exact_of E (model g) (lossfunc g) X y)"

definition kron_quantity ::
    "('x, 'y) engine \<Rightarrow> 'x BackPackGGN \<Rightarrow> 'x list \<Rightarrow> 'y list \<Rightarrow> world \<Rightarrow> pid \<Rightarrow> tensor2 list" where
  "kron_quantity E g X y w =
     (if stochastic g then kfac_of E (rng w) (model g) (lossfunc g) X y
      else kflr_of E (model g) (lossfunc g) X y)"

text \<open>
  What \<open>full\<close> of the GGN family hands to \<open>_get_full_ggn\<close>: the Jacobians and outputs of
  the routine that \<open>last_layer\<close> selects.
\<close>

definition full_ggn_inputs ::
    "('x, 'y) engine \<Rightarrow> ('x, 'z) BackPackInterface_scheme \<Rightarrow> 'x list \<Rightarrow> tensor3 \<times> tensor2" where
  "full_ggn_inputs E s X =
     (if last_layer s then last_layer_jacobians E (model s) X else jacobians E (model s) X)"

text \<open>
  The curvature of each operation before the factor is applied: what the operation has
  assembled when it multiplies by \<open>self.factor\<close>, and for \<open>full\<close> of the GGN family the
  contraction that \<open>_get_full_ggn\<close> returns.
\<close>

definition unscaled_diag_ggn ::
    "('x, 'y) engine \<Rightarrow> 'x BackPackGGN \<Rightarrow> 'x list \<Rightarrow> 'y list \<Rightarrow> world \<Rightarrow> error + tensor1" where
  "unscaled_diag_ggn E g X y w =
     torch_cat (map (diag_ggn_quantity E g X y w) (parameters (selected_model g)))"

definition unscaled_kron ::
    "('x, 'y) engine \<Rightarrow> 'x BackPackGGN \<Rightarrow> 'x list \<Rightarrow> 'y list \<Rightarrow> int \<Rightarrow> world \<Rightarrow> error + Kron" where
  "unscaled_kron E g X y N w =
     rescale_kron_factors
       \<lparr>kfacs = map (kron_quantity E g X y w) (parameters (selected_model g))\<rparr> (length y) N"

definition unscaled_diag_ef ::
    "('x, 'y) engine \<Rightarrow> 'x BackPackInterface \<Rightarrow> 'x list \<Rightarrow> 'y list \<Rightarrow> error + tensor1" where
  "unscaled_diag_ef E s X y =
     torch_cat (map (\<lambda>p. sum_grad_squared_of (grad_batch_of E (model s) (lossfunc s) X y p))
                  (parameters (selected_model s)))"

definition stacked_gradients ::
    "('x, 'y) engine \<Rightarrow> 'x BackPackInterface \<Rightarrow> 'x list \<Rightarrow> 'y list \<Rightarrow> error + tensor2" where
  "stacked_gradients E s X y =
     torch_cat_dim1 (map (grad_batch_of E (model s) (lossfunc s) X y)
                       (parameters (selected_model s)))"

definition unscaled_full_ef ::
    "('x, 'y) engine \<Rightarrow> 'x BackPackInterface \<Rightarrow> 'x list \<Rightarrow> 'y list \<Rightarrow> error + tensor2" where
  "unscaled_full_ef E s X y =
     (case stacked_gradients E s X y of
        Inl e \<Rightarrow> Inl e
      | Inr Gs \<Rightarrow> matmul (transpose2 Gs) Gs)"

definition ggn_contraction :: "string \<Rightarrow> tensor3 \<Rightarrow> tensor2 \<Rightarrow> error + tensor2" where
  "ggn_contraction lik Js f =
     (if lik = ''regression'' then einsum_mkp_mkq_pq Js Js
      else
        (case einsum_mk_mc_mck (softmax f) (softmax f) of
           Inl e \<Rightarrow> Inl e
         | Inr outer \<Rightarrow>
             (case sub3 (diag_embed (softmax f)) outer of
                Inl e \<Rightarrow> Inl e
              | Inr H_lik \<Rightarrow> einsum_mcp_mck_mkq_pq Js H_lik Js)))"

text \<open>The Gram matrix \<open>Gs.T @ Gs\<close> of stacked gradients, when the stacking succeeded.\<close>

definition gram :: "error + tensor2 \<Rightarrow> error + tensor2" where
  "gram r = (case r of Inl e \<Rightarrow> Inl e | Inr Gs \<Rightarrow> matmul (transpose2 Gs) Gs)"

text \<open>Reading the parts of a result.\<close>

definition curvature_of :: "error + real \<times> 'c \<Rightarrow> error + 'c" where
  "curvature_of r = map_sum id snd r"

definition loss_of :: "error + real \<times> 'c \<Rightarrow> error + real" where
  "loss_of r = map_sum id fst r"

definition entry2 :: "error + tensor2 \<Rightarrow> nat \<Rightarrow> nat \<Rightarrow> real option" where
  "entry2 r i j = (case r of Inl e \<Rightarrow> None | Inr H \<Rightarrow> Some (at2 H i j))"

subsection \<open>The formulas of the specification\<close>

text \<open>
  The product \<open>J\<^sup>T J\<close> of one example's Jacobian with itself and its sum over the
  examples; the Hessian \<open>diag(p) - p p\<^sup>T\<close> of the softmax cross-entropy and the
  contraction of the Jacobians through it; symmetry and positive semidefiniteness of a
  square matrix.
\<close>

definition example_JtJ :: "tensor3 \<Rightarrow> nat \<Rightarrow> tensor2" where
  "example_JtJ Js m =
     \<lparr>nrows = dim2 Js, ncols = dim2 Js, at2 = \<lambda>p q. \<Sum>k<dim1 Js. at3 Js m k p * at3 Js m k q\<rparr>"

definition sum_JtJ :: "tensor3 \<Rightarrow> tensor2" where
  "sum_JtJ Js =
     \<lparr>nrows = dim2 Js, ncols = dim2 Js, at2 = \<lambda>p q. \<Sum>m<dim0 Js. at2 (example_JtJ Js m) p q\<rparr>"

definition softmax_hessian :: "tensor2 \<Rightarrow> nat \<Rightarrow> nat \<Rightarrow> nat \<Rightarrow> real" where
  "softmax_hessian p m c k = (if c = k then at2 p m c else 0) - at2 p m c * at2 p m k"

definition softmax_ggn :: "tensor3 \<Rightarrow> tensor2 \<Rightarrow> tensor2" where
  "softmax_ggn Js f =
     \<lparr>nrows = dim2 Js, ncols = dim2 Js,
      at2 = \<lambda>p q. \<Sum>m<nrows f. \<Sum>c<ncols f. \<Sum>k<ncols f.
              at3 Js m c p * softmax_hessian (softmax f) m c k * at3 Js m k q\<rparr>"




subsection \<open>The contraction in float32\<close>






subsection \<open>A small instance\<close>

text \<open>
  A model with a weight (parameter 0) and a bias (parameter 1, the last layer), and an
  engine with fixed values, on which the definitions can be run.
\<close>

definition toy_model :: "real torch_model" where
  "toy_model =
     \<lparr>parameters = [0, 1],
      forward = (\<lambda>X. \<lparr>nrows = length X, ncols = 1, at2 = \<lambda>m k. 2 * (X ! m)\<rparr>),
      model_last_layer = \<lparr>parameters = [1]\<rparr>\<rparr>"

definition toy_factor_A :: tensor2 where
  "toy_factor_A = \<lparr>nrows = 1, ncols = 1, at2 = \<lambda>i j. 3\<rparr>"

definition toy_factor_B :: tensor2 where
  "toy_factor_B = \<lparr>nrows = 1, ncols = 1, at2 = \<lambda>i j. 4\<rparr>"

definition toy_engine :: "(real, real) engine" where
  "toy_engine =
     \<lparr>lossfunc_call = (\<lambda>lf f y. \<Sum>m<nrows f. (at2 f m 0 - y ! m)\<^sup>2),
      diag_ggn_exact_of = (\<lambda>mdl lf X y p. \<lparr>numel = 1, at1 = \<lambda>j. if p = 0 then 10 else 4\<rparr>),
      diag_ggn_mc_of = (\<lambda>seed mdl lf X y p. \<lparr>numel = 1, at1 = \<lambda>j. real seed\<rparr>),
      kflr_of = (\<lambda>mdl lf X y p. if p = 0 then [toy_factor_A, toy_factor_B] else [toy_factor_B]),
      kfac_of = (\<lambda>seed mdl lf X y p. if p = 0 then [toy_factor_A, toy_factor_B] else [toy_factor_B]),
      grad_batch_of = (\<lambda>mdl lf X y p.
         \<lparr>nrows = length X, ncols = 1, at2 = \<lambda>m j. if p = 0 then X ! m else 1\<rparr>),
      jacobians = (\<lambda>mdl X.
         (\<lparr>dim0 = length X, dim1 = 1, dim2 = 2, at3 = \<lambda>m k p. if p = 0 then X ! m else 1\<rparr>,
          forward mdl X)),
      last_layer_jacobians = (\<lambda>mdl X.
         (\<lparr>dim0 = length X, dim1 = 1, dim2 = 1, at3 = \<lambda>m k p. 1\<rparr>, forward mdl X)),
      Kron_rmul = (\<lambda>c K. K\<lparr>kfacs := map (map (smul2 c)) (kfacs K)\<rparr>)\<rparr>"

definition toy_world :: world where
  "toy_world =
     \<lparr>log = [], rng = 0, diag_ggn_exact = Map.empty, diag_ggn_mc = Map.empty,
      kflr = Map.empty, kfac = Map.empty, sum_grad_squared = Map.empty,
      grad_batch = Map.empty\<rparr>"

definition toy_ggn :: "bool \<Rightarrow> bool \<Rightarrow> real BackPackGGN" where
  "toy_ggn ll st =
     \<lparr>model = toy_model, likelihood = ''regression'', lossfunc = MSELoss Reduction_sum,
      factor = 0.5, last_layer = ll, stochastic = st\<rparr>"

definition toy_ef :: "bool \<Rightarrow> real BackPackInterface" where
  "toy_ef ll =
     \<lparr>model = toy_model, likelihood = ''regression'', lossfunc = MSELoss Reduction_sum,
      factor = 0.5, last_layer = ll\<rparr>"

definition toy_Js :: tensor3 where
  "toy_Js = \<lparr>dim0 = 2, dim1 = 1, dim2 = 2, at3 = \<lambda>m k p. if p = 0 then [1, 2] ! m else 1\<rparr>"

text \<open>
  A two-class linear classifier \<open>f\<^sub>c(x) = \<theta>\<^sub>c x\<close> at \<open>\<theta> = 0\<close>: the outputs are zero,
  the softmax is uniform, and the Jacobian of output \<open>c\<close> in parameter \<open>p\<close> is \<open>x\<close> for
  \<open>c = p\<close> and zero otherwise.
\<close>

definition toy_classifier :: "real torch_model" where
  "toy_classifier =
     \<lparr>parameters = [0],
      forward = (\<lambda>X. \<lparr>nrows = length X, ncols = 2, at2 = \<lambda>m k. 0\<rparr>),
      model_last_layer = \<lparr>parameters = [0]\<rparr>\<rparr>"

definition toy_classifier_engine :: "(real, real) engine" where
  "toy_classifier_engine =
     toy_engine\<lparr>jacobians := (\<lambda>mdl X.
       (\<lparr>dim0 = length X, dim1 = 2, dim2 = 2, at3 = \<lambda>m c p. if c = p then X ! m else 0\<rparr>,
        forward mdl X))\<rparr>"

definition toy_classifier_ggn :: "real BackPackGGN" where
  "toy_classifier_ggn =
     \<lparr>model = toy_classifier, likelihood = ''classification'',
      lossfunc = CrossEntropyLoss Reduction_sum, factor = 1, last_layer = False,
      stochastic = False\<rparr>"

definition toy_classifier_Js :: tensor3 where
  "toy_classifier_Js =
     \<lparr>dim0 = 2, dim1 = 2, dim2 = 2, at3 = \<lambda>m c p. if c = p then [1, 2] ! m else 0\<rparr>"




section \<open>Properties\<close>

subsection \<open>What each operation returns\<close>

text \<open>
  A backward pass puts its quantity on every parameter the operation reads afterwards,
  so the reads succeed, and the result of an operation is a function of what the engine
  delivered.
\<close>

lemma read_from_put_on:
  "set ps' \<subseteq> set ps \<Longrightarrow> read_from (put_on ps q old) ps' = Inr (map q ps')"
  by (induction ps') (simp_all add: put_on_def)

lemma BackPackGGN_diag_fst:
  "fst (BackPackGGN_diag E g X y w) =
     (case torch_cat (map (diag_ggn_quantity E g X y w) (parameters (selected_model g))) of
        Inl e \<Rightarrow> Inl e
      | Inr d \<Rightarrow> Inr (factor g * unscaled_loss E g X y, smul1 (factor g) d))"
  by (simp add: BackPackGGN_diag_def get_diag_ggn_def run_forward_def emit_def
      diag_ggn_quantity_def unscaled_loss_def read_from_put_on split: sum.splits)

lemma BackPackGGN_kron_fst:
  "fst (BackPackGGN_kron E g X y N w) =
     (case rescale_kron_factors
             \<lparr>kfacs = map (kron_quantity E g X y w) (parameters (selected_model g))\<rparr>
             (length y) N of
        Inl e \<Rightarrow> Inl e
      | Inr kron \<Rightarrow> Inr (factor g * unscaled_loss E g X y, Kron_rmul E (factor g) kron))"
  by (simp add: BackPackGGN_kron_def get_kron_factors_def run_forward_def emit_def
      kron_quantity_def unscaled_loss_def read_from_put_on split: sum.splits)

lemma BackPackEF_diag_fst:
  "fst (BackPackEF_diag E s X y w) =
     (case torch_cat (map (\<lambda>p. sum_grad_squared_of (grad_batch_of E (model s) (lossfunc s) X y p))
                        (parameters (selected_model s))) of
        Inl e \<Rightarrow> Inl e
      | Inr d \<Rightarrow> Inr (factor s * unscaled_loss E s X y, smul1 (factor s) d))"
  by (simp add: BackPackEF_diag_def run_forward_def emit_def
      unscaled_loss_def read_from_put_on split: sum.splits)

lemma BackPackEF_full_fst:
  "fst (BackPackEF_full E s X y w) =
     (case torch_cat_dim1 (map (grad_batch_of E (model s) (lossfunc s) X y)
                             (parameters (selected_model s))) of
        Inl e \<Rightarrow> Inl e
      | Inr Gs \<Rightarrow>
          (case matmul (transpose2 Gs) Gs of
             Inl e \<Rightarrow> Inl e
           | Inr H \<Rightarrow> Inr (factor s * unscaled_loss E s X y, smul2 (factor s) H)))"
  by (simp add: BackPackEF_full_def get_individual_gradients_def run_forward_def emit_def
      unscaled_loss_def read_from_put_on split: sum.splits)

text \<open>An operation that runs leaves its passes in the trace.\<close>

lemma BackPackEF_full_log:
  "log (snd (BackPackEF_full E s X y w)) = log w @ [Forward, Backward BatchGrad]"
  by (simp add: BackPackEF_full_def run_forward_def emit_def Let_def split: sum.splits)

lemma BackPackGGN_full_log:
  "\<not> stochastic g \<Longrightarrow>
   log (snd (BackPackGGN_full E g X y w)) =
     log w @ [if last_layer g then Last_layer_jacobians else Jacobians]"
  by (simp add: BackPackGGN_full_def emit_def Let_def split: prod.splits)

subsection \<open>Construction\<close>

lemma CurvatureInterface_init_invalid:
  "lik \<noteq> ''regression'' \<Longrightarrow> lik \<noteq> ''classification'' \<Longrightarrow>
     CurvatureInterface_init mdl lik = Inl AssertionError"
  by (simp add: CurvatureInterface_init_def)

lemma CurvatureInterface_init_regression:
  "CurvatureInterface_init mdl ''regression'' =
     Inr \<lparr>model = mdl, likelihood = ''regression'', lossfunc = MSELoss Reduction_sum,
          factor = 0.5\<rparr>"
  by (simp add: CurvatureInterface_init_def)

lemma CurvatureInterface_init_classification:
  "CurvatureInterface_init mdl ''classification'' =
     Inr \<lparr>model = mdl, likelihood = ''classification'',
          lossfunc = CrossEntropyLoss Reduction_sum, factor = 1\<rparr>"
  by (simp add: CurvatureInterface_init_def)

text \<open>
  Claim C7. Constructing either family with a likelihood other than \<open>regression\<close> and
  \<open>classification\<close> fails with the assertion, so no interface exists that a batch could
  be handed to. With \<open>regression\<close> the interface carries the sum-reduced squared error
  and the factor \<open>0.5\<close>, with \<open>classification\<close> the sum-reduced cross-entropy and the
  factor \<open>1\<close>.
\<close>

theorem likelihood_checked_at_construction:
  "(lik \<noteq> ''regression'' \<and> lik \<noteq> ''classification'' \<longrightarrow>
      fst (BackPackGGN_init mdl lik ll st w) = Inl AssertionError \<and>
      fst (BackPackEF_init mdl lik ll w) = Inl AssertionError) \<and>
   (lik = ''regression'' \<longrightarrow>
      fst (BackPackGGN_init mdl lik ll st w) =
        Inr \<lparr>model = mdl, likelihood = ''regression'', lossfunc = MSELoss Reduction_sum,
             factor = 0.5, last_layer = ll, stochastic = st\<rparr> \<and>
      fst (BackPackEF_init mdl lik ll w) =
        Inr \<lparr>model = mdl, likelihood = ''regression'', lossfunc = MSELoss Reduction_sum,
             factor = 0.5, last_layer = ll\<rparr>) \<and>
   (lik = ''classification'' \<longrightarrow>
      fst (BackPackGGN_init mdl lik ll st w) =
        Inr \<lparr>model = mdl, likelihood = ''classification'',
             lossfunc = CrossEntropyLoss Reduction_sum,
             factor = 1, last_layer = ll, stochastic = st\<rparr> \<and>
      fst (BackPackEF_init mdl lik ll w) =
        Inr \<lparr>model = mdl, likelihood = ''classification'',
             lossfunc = CrossEntropyLoss Reduction_sum,
             factor = 1, last_layer = ll\<rparr>)"
  by (simp add: BackPackGGN_init_def BackPackEF_init_def BackPackInterface_init_def
      CurvatureInterface_init_invalid CurvatureInterface_init_regression
      CurvatureInterface_init_classification CurvatureInterface.extend_def
      BackPackInterface.extend_def Let_def)

theorem likelihood_checked_at_construction_witness:
  "fst (BackPackGGN_init toy_model ''poisson'' False False toy_world) = Inl AssertionError \<and>
   fst (BackPackEF_init toy_model ''poisson'' False toy_world) = Inl AssertionError \<and>
   fst (BackPackGGN_init toy_model ''regression'' True False toy_world) = Inr (toy_ggn True False) \<and>
   fst (BackPackEF_init toy_model ''regression'' True toy_world) = Inr (toy_ef True) \<and>
   lossfunc (toy_ggn True False) = MSELoss Reduction_sum \<and> factor (toy_ggn True False) = 0.5"
  using likelihood_checked_at_construction
          [of "''poisson''" toy_model False False toy_world]
        likelihood_checked_at_construction
          [of "''regression''" toy_model True False toy_world]
  by (simp add: toy_ggn_def toy_ef_def)

text \<open>
  Claim C10. With an invalid likelihood the construction of either family returns the
  assertion failure and the state it was given: the check of the base constructor comes
  before the two calls of \<open>extend\<close>, and nothing is registered. With a valid likelihood
  the trace grows by exactly the two registrations.
\<close>

theorem failed_construction_registers_nothing:
  "(lik \<noteq> ''regression'' \<and> lik \<noteq> ''classification'' \<longrightarrow>
      BackPackGGN_init mdl lik ll st w = (Inl AssertionError, w) \<and>
      BackPackEF_init mdl lik ll w = (Inl AssertionError, w)) \<and>
   (lik = ''regression'' \<or> lik = ''classification'' \<longrightarrow>
      (\<exists>m l. log (snd (BackPackGGN_init mdl lik ll st w)) =
                log w @ [Extend_module m, Extend_lossfunc l]) \<and>
      (\<exists>m l. log (snd (BackPackEF_init mdl lik ll w)) =
                log w @ [Extend_module m, Extend_lossfunc l]))"
  by (auto simp add: BackPackGGN_init_def BackPackEF_init_def BackPackInterface_init_def
      CurvatureInterface_init_invalid CurvatureInterface_init_regression
      CurvatureInterface_init_classification emit_def Let_def)

theorem failed_construction_registers_nothing_witness:
  "BackPackGGN_init toy_model ''poisson'' True False toy_world = (Inl AssertionError, toy_world) \<and>
   BackPackEF_init toy_model ''poisson'' True toy_world = (Inl AssertionError, toy_world) \<and>
   log (snd (BackPackGGN_init toy_model ''regression'' True False toy_world)) =
     [Extend_module \<lparr>parameters = [1]\<rparr>, Extend_lossfunc (MSELoss Reduction_sum)]"
  using failed_construction_registers_nothing
          [of "''poisson''" toy_model True False toy_world]
  by (simp add: BackPackGGN_init_def BackPackInterface_init_def
      CurvatureInterface_init_regression selected_model_def emit_def toy_model_def
      toy_world_def CurvatureInterface.extend_def Let_def)

subsection \<open>Unsupported operations\<close>

text \<open>
  Claim C5. \<open>full\<close> on a GGN interface with \<open>stochastic\<close> set raises \<open>ValueError\<close>, and
  \<open>kron\<close> on the empirical-Fisher family raises \<open>NotImplementedError\<close>, for every engine,
  batch and state. The state comes back as it was given (no forward pass, no backward
  pass, nothing put on a parameter), so a second call meets the same state and gives the
  same error.
\<close>

theorem unsupported_operations_raise_at_once:
  "(stochastic g \<longrightarrow>
      BackPackGGN_full E g X y w = (Inl ValueError, w) \<and>
      BackPackGGN_full E g X y (snd (BackPackGGN_full E g X y w)) = (Inl ValueError, w)) \<and>
   BackPackEF_kron E s X y w = (Inl NotImplementedError, w) \<and>
   BackPackEF_kron E s X y (snd (BackPackEF_kron E s X y w)) = (Inl NotImplementedError, w)"
  by (simp add: BackPackGGN_full_def BackPackEF_kron_def)

theorem unsupported_operations_raise_at_once_witness:
  "stochastic (toy_ggn False True) \<and>
   BackPackGGN_full toy_engine (toy_ggn False True) [1, 2] [3, 5] toy_world
     = (Inl ValueError, toy_world) \<and>
   BackPackEF_kron toy_engine (toy_ef False) [1, 2] [3, 5] toy_world
     = (Inl NotImplementedError, toy_world)"
  using unsupported_operations_raise_at_once
          [of "toy_ggn False True" toy_engine "[1, 2]" "[3, 5]" toy_world "toy_ef False"]
  by (simp add: toy_ggn_def)

subsection \<open>The full GGN\<close>

lemma BackPackGGN_init_Inr:
  "fst (BackPackGGN_init mdl lik ll st w) = Inr g \<Longrightarrow>
     (lik = ''regression'' \<or> lik = ''classification'') \<and>
     g = \<lparr>model = mdl, likelihood = lik,
          lossfunc = (if lik = ''regression'' then MSELoss Reduction_sum
                      else CrossEntropyLoss Reduction_sum),
          factor = (if lik = ''regression'' then 0.5 else 1),
          last_layer = ll, stochastic = st\<rparr>"
  by (auto simp add: BackPackGGN_init_def BackPackInterface_init_def
      CurvatureInterface_init_def CurvatureInterface.extend_def
      BackPackInterface.extend_def Let_def split: if_splits)

lemma BackPackEF_init_Inr:
  "fst (BackPackEF_init mdl lik ll w) = Inr s \<Longrightarrow>
     (lik = ''regression'' \<or> lik = ''classification'') \<and>
     s = \<lparr>model = mdl, likelihood = lik,
          lossfunc = (if lik = ''regression'' then MSELoss Reduction_sum
                      else CrossEntropyLoss Reduction_sum),
          factor = (if lik = ''regression'' then 0.5 else 1),
          last_layer = ll\<rparr>"
  by (auto simp add: BackPackEF_init_def BackPackInterface_init_def
      CurvatureInterface_init_def CurvatureInterface.extend_def
      Let_def split: if_splits)

lemma toy_init_ggn:
  "fst (BackPackGGN_init toy_model ''regression'' ll st toy_world) = Inr (toy_ggn ll st)"
  by (simp add: BackPackGGN_init_def BackPackInterface_init_def
      CurvatureInterface_init_regression CurvatureInterface.extend_def
      BackPackInterface.extend_def Let_def toy_ggn_def)

lemma toy_init_ef:
  "fst (BackPackEF_init toy_model ''regression'' ll toy_world) = Inr (toy_ef ll)"
  by (simp add: BackPackEF_init_def BackPackInterface_init_def
      CurvatureInterface_init_regression CurvatureInterface.extend_def
      Let_def toy_ef_def)

lemma sum_lessThan_2: "(\<Sum>m<(2::nat). f m) = f 0 + (f 1 :: real)"
  by (simp add: eval_nat_numeral)

lemma BackPackGGN_full_fst:
  "\<not> stochastic g \<Longrightarrow>
   fst (BackPackGGN_full E g X y w) =
     get_full_ggn E g (fst (full_ggn_inputs E g X)) (snd (full_ggn_inputs E g X)) y"
  by (simp add: BackPackGGN_full_def full_ggn_inputs_def split: prod.splits)

lemma get_full_ggn_regression:
  "likelihood s = ''regression'' \<Longrightarrow>
     get_full_ggn E s Js f y = Inr (factor s * lossfunc_call E (lossfunc s) f y, sum_JtJ Js)"
  by (simp add: get_full_ggn_def einsum_mkp_mkq_pq_def sum_JtJ_def example_JtJ_def)


lemma get_full_ggn_classification:
  assumes "likelihood s = ''classification''" "dim0 Js = nrows f" "dim1 Js = ncols f"
  shows "get_full_ggn E s Js f y =
           Inr (factor s * lossfunc_call E (lossfunc s) f y, softmax_ggn Js f)"
  using assms
  by (simp add: get_full_ggn_def softmax_def einsum_mk_mc_mck_def diag_embed_def sub3_def
      einsum_mcp_mck_mkq_pq_def softmax_ggn_def softmax_hessian_def mult.commute)

lemma get_full_ggn_contraction:
  "get_full_ggn E s Js f y =
     map_sum id (\<lambda>H. (factor s * lossfunc_call E (lossfunc s) f y, H))
       (ggn_contraction (likelihood s) Js f)"
  by (simp add: get_full_ggn_def ggn_contraction_def Let_def split: sum.splits)

text \<open>
  Claim C3, amended. For a regression likelihood \<open>full\<close> of the exact GGN family returns
  the loss times \<open>0.5\<close> and, as curvature, the sum over the examples of \<open>J\<^sup>T J\<close> itself:
  the factor \<open>0.5\<close> is applied to the loss only.
\<close>

theorem regression_full_ggn_is_unscaled_sum:
  assumes "fst (BackPackGGN_init mdl ''regression'' ll False w0) = Inr g"
    and "full_ggn_inputs E g X = (Js, f)"
  shows "fst (BackPackGGN_full E g X y w) =
           Inr (0.5 * lossfunc_call E (MSELoss Reduction_sum) f y, sum_JtJ Js)"
proof -
  from BackPackGGN_init_Inr [OF assms(1)]
  have g: "likelihood g = ''regression''" "\<not> stochastic g" "factor g = 0.5"
    "lossfunc g = MSELoss Reduction_sum"
    by simp_all
  show ?thesis
    using assms(2) by (simp add: BackPackGGN_full_fst get_full_ggn_regression g)
qed

lemma toy_full_ggn_inputs:
  "full_ggn_inputs toy_engine (toy_ggn False False) [1, 2] = (toy_Js, forward toy_model [1, 2])"
  by (simp add: full_ggn_inputs_def toy_ggn_def toy_engine_def toy_Js_def)

theorem regression_full_ggn_is_unscaled_sum_witness:
  "entry2 (curvature_of (fst (BackPackGGN_full toy_engine (toy_ggn False False) [1, 2] [3, 5] toy_world))) 0 0 = Some 5 \<and>
   entry2 (curvature_of (fst (BackPackGGN_full toy_engine (toy_ggn False False) [1, 2] [3, 5] toy_world))) 0 1 = Some 3 \<and>
   loss_of (fst (BackPackGGN_full toy_engine (toy_ggn False False) [1, 2] [3, 5] toy_world)) = Inr 1"
  using regression_full_ggn_is_unscaled_sum [OF toy_init_ggn toy_full_ggn_inputs, of "[3, 5]" toy_world]
  by (simp add: entry2_def curvature_of_def loss_of_def sum_JtJ_def example_JtJ_def toy_Js_def
      toy_engine_def toy_model_def sum_lessThan_2)

text \<open>
  The claim as it stands, with \<open>0.5\<close> in front of the sum, fails for the inputs \<open>1\<close> and
  \<open>2\<close>: the entry \<open>(0, 0)\<close> of the curvature is \<open>5\<close>, and half the sum is \<open>5/2\<close>.
\<close>

theorem regression_full_ggn_half_counterexample:
  "entry2 (curvature_of (fst (BackPackGGN_full toy_engine (toy_ggn False False)
             [1, 2] [3, 5] toy_world))) 0 0 = Some 5 \<and>
   0.5 * at2 (sum_JtJ (fst (jacobians toy_engine toy_model [1, 2]))) 0 0 = 5 / 2 \<and>
   entry2 (curvature_of (fst (BackPackGGN_full toy_engine (toy_ggn False False)
             [1, 2] [3, 5] toy_world))) 0 0
     \<noteq> Some (0.5 * at2 (sum_JtJ (fst (jacobians toy_engine toy_model [1, 2]))) 0 0)"
  by (simp add: BackPackGGN_full_fst get_full_ggn_regression full_ggn_inputs_def
      entry2_def curvature_of_def sum_JtJ_def example_JtJ_def
      toy_engine_def toy_model_def toy_ggn_def sum_lessThan_2)

text \<open>
  Claim C2. For a classification likelihood, and Jacobians that have one row of outputs
  per example as the routine delivers them, \<open>full\<close> of the exact GGN family returns the
  contraction of the Jacobians through \<open>diag(p) - p p\<^sup>T\<close>, with \<open>p\<close> the softmax of each
  example's outputs.
\<close>

theorem classification_full_ggn_is_softmax_contraction:
  assumes "fst (BackPackGGN_init mdl ''classification'' ll False w0) = Inr g"
    and "full_ggn_inputs E g X = (Js, f)"
    and "dim0 Js = nrows f" and "dim1 Js = ncols f"
  shows "fst (BackPackGGN_full E g X y w) =
           Inr (lossfunc_call E (CrossEntropyLoss Reduction_sum) f y, softmax_ggn Js f)"
proof -
  from BackPackGGN_init_Inr [OF assms(1)]
  have g: "likelihood g = ''classification''" "\<not> stochastic g" "factor g = 1"
    "lossfunc g = CrossEntropyLoss Reduction_sum"
    by simp_all
  show ?thesis
    using assms(2-4) by (simp add: BackPackGGN_full_fst get_full_ggn_classification g)
qed

lemma toy_classifier_init:
  "fst (BackPackGGN_init toy_classifier ''classification'' False False toy_world)
     = Inr toy_classifier_ggn"
  by (simp add: BackPackGGN_init_def BackPackInterface_init_def
      CurvatureInterface_init_classification CurvatureInterface.extend_def
      BackPackInterface.extend_def Let_def toy_classifier_ggn_def)

lemma toy_classifier_inputs:
  "full_ggn_inputs toy_classifier_engine toy_classifier_ggn [1, 2]
     = (toy_classifier_Js, forward toy_classifier [1, 2])"
  by (simp add: full_ggn_inputs_def toy_classifier_ggn_def toy_classifier_engine_def
      toy_engine_def toy_classifier_Js_def)

theorem classification_full_ggn_is_softmax_contraction_witness:
  "entry2 (curvature_of (fst (BackPackGGN_full toy_classifier_engine toy_classifier_ggn
             [1, 2] [0, 1] toy_world))) 0 0 = Some (5 / 4) \<and>
   entry2 (curvature_of (fst (BackPackGGN_full toy_classifier_engine toy_classifier_ggn
             [1, 2] [0, 1] toy_world))) 0 1 = Some (- 5 / 4)"
  using classification_full_ggn_is_softmax_contraction
          [OF toy_classifier_init toy_classifier_inputs, of "[0, 1]" toy_world]
  by (simp add: entry2_def curvature_of_def softmax_ggn_def softmax_hessian_def softmax_def
      toy_classifier_Js_def toy_classifier_def sum_lessThan_2)

subsection \<open>The factor\<close>

text \<open>
  Claim C1, amended. With the factor that the likelihood fixes (\<open>0.5\<close> for regression,
  \<open>1\<close> for classification), \<open>diag\<close> and \<open>kron\<close> of the GGN family and \<open>diag\<close> and \<open>full\<close> of
  the empirical-Fisher family return the factor times the loss and the factor times the
  curvature they assembled, or the error that stopped the assembly. \<open>full\<close> of the exact
  GGN family returns the factor times the loss, and the contraction of \<open>_get_full_ggn\<close>
  as it is, with no factor.
\<close>

theorem loss_and_curvature_scaling:
  assumes "fst (BackPackGGN_init mdl lik ll st w0) = Inr g"
    and "fst (BackPackEF_init mdl lik ll w0) = Inr s"
  shows
    "factor g = (if lik = ''regression'' then 0.5 else 1) \<and>
     factor s = (if lik = ''regression'' then 0.5 else 1) \<and>
     fst (BackPackGGN_diag E g X y w) =
       map_sum id (\<lambda>d. (factor g * unscaled_loss E g X y, smul1 (factor g) d))
         (unscaled_diag_ggn E g X y w) \<and>
     fst (BackPackGGN_kron E g X y N w) =
       map_sum id (\<lambda>K. (factor g * unscaled_loss E g X y, Kron_rmul E (factor g) K))
         (unscaled_kron E g X y N w) \<and>
     fst (BackPackEF_diag E s X y w) =
       map_sum id (\<lambda>d. (factor s * unscaled_loss E s X y, smul1 (factor s) d))
         (unscaled_diag_ef E s X y) \<and>
     fst (BackPackEF_full E s X y w) =
       map_sum id (\<lambda>H. (factor s * unscaled_loss E s X y, smul2 (factor s) H))
         (unscaled_full_ef E s X y) \<and>
     (\<not> st \<longrightarrow>
        fst (BackPackGGN_full E g X y w) =
          map_sum id
            (\<lambda>H. (factor g * lossfunc_call E (lossfunc g) (snd (full_ggn_inputs E g X)) y, H))
            (ggn_contraction lik (fst (full_ggn_inputs E g X)) (snd (full_ggn_inputs E g X))))"
proof -
  from BackPackGGN_init_Inr [OF assms(1)]
  have g: "factor g = (if lik = ''regression'' then 0.5 else 1)" "stochastic g = st"
    "likelihood g = lik"
    by simp_all
  from BackPackEF_init_Inr [OF assms(2)]
  have s: "factor s = (if lik = ''regression'' then 0.5 else 1)"
    by simp
  have 1: "fst (BackPackGGN_diag E g X y w) =
       map_sum id (\<lambda>d. (factor g * unscaled_loss E g X y, smul1 (factor g) d))
         (unscaled_diag_ggn E g X y w)"
    by (simp add: BackPackGGN_diag_fst unscaled_diag_ggn_def split: sum.splits)
  have 2: "fst (BackPackGGN_kron E g X y N w) =
       map_sum id (\<lambda>K. (factor g * unscaled_loss E g X y, Kron_rmul E (factor g) K))
         (unscaled_kron E g X y N w)"
    by (simp add: BackPackGGN_kron_fst unscaled_kron_def split: sum.splits)
  have 3: "fst (BackPackEF_diag E s X y w) =
       map_sum id (\<lambda>d. (factor s * unscaled_loss E s X y, smul1 (factor s) d))
         (unscaled_diag_ef E s X y)"
    by (simp add: BackPackEF_diag_fst unscaled_diag_ef_def split: sum.splits)
  have 4: "fst (BackPackEF_full E s X y w) =
       map_sum id (\<lambda>H. (factor s * unscaled_loss E s X y, smul2 (factor s) H))
         (unscaled_full_ef E s X y)"
    by (simp add: BackPackEF_full_fst unscaled_full_ef_def stacked_gradients_def
        split: sum.splits)
  have 5: "\<not> st \<longrightarrow>
        fst (BackPackGGN_full E g X y w) =
          map_sum id
            (\<lambda>H. (factor g * lossfunc_call E (lossfunc g) (snd (full_ggn_inputs E g X)) y, H))
            (ggn_contraction lik (fst (full_ggn_inputs E g X)) (snd (full_ggn_inputs E g X)))"
    using g(2,3) by (simp add: BackPackGGN_full_fst get_full_ggn_contraction)
  from g(1) s 1 2 3 4 5 show ?thesis by blast
qed

theorem loss_and_curvature_scaling_witness:
  "factor (toy_ggn True False) = 0.5 \<and>
   map_sum id (\<lambda>r. (fst r, at1 (snd r) 0))
     (fst (BackPackGGN_diag toy_engine (toy_ggn True False) [3] [5] toy_world)) = Inr (1 / 2, 2) \<and>
   unscaled_loss toy_engine (toy_ggn True False) [3] [5] = 1 \<and>
   map_sum id (\<lambda>d. at1 d 0) (unscaled_diag_ggn toy_engine (toy_ggn True False) [3] [5] toy_world)
     = Inr 4 \<and>
   map_sum id (\<lambda>r. (fst r, at2 (snd r) 0 0))
     (fst (BackPackGGN_full toy_engine (toy_ggn True False) [3] [5] toy_world)) = Inr (1 / 2, 1)"
  using loss_and_curvature_scaling [OF toy_init_ggn toy_init_ef, of True False toy_engine "[3]" "[5]" toy_world]
  by (simp add: unscaled_diag_ggn_def unscaled_loss_def diag_ggn_quantity_def
      selected_model_def torch_cat_def smul1_def toy_ggn_def toy_engine_def toy_model_def
      full_ggn_inputs_def ggn_contraction_def einsum_mkp_mkq_pq_def)

text \<open>
  The claim as it stands fails for \<open>full\<close> of the GGN family under regression: on one
  example with the last-layer Jacobian \<open>1\<close> the contraction is \<open>1\<close>, the factor is \<open>1/2\<close>,
  and the curvature returned is \<open>1\<close>.
\<close>

theorem full_ggn_curvature_scaled_counterexample:
  "factor (toy_ggn True False) = 1 / 2 \<and>
   entry2 (ggn_contraction ''regression''
             (fst (last_layer_jacobians toy_engine toy_model [3]))
             (snd (last_layer_jacobians toy_engine toy_model [3]))) 0 0 = Some 1 \<and>
   entry2 (curvature_of
             (fst (BackPackGGN_full toy_engine (toy_ggn True False) [3] [5] toy_world))) 0 0
     = Some 1 \<and>
   entry2 (curvature_of
             (fst (BackPackGGN_full toy_engine (toy_ggn True False) [3] [5] toy_world))) 0 0
     \<noteq> map_option ((*) (factor (toy_ggn True False)))
          (entry2 (ggn_contraction ''regression''
             (fst (last_layer_jacobians toy_engine toy_model [3]))
             (snd (last_layer_jacobians toy_engine toy_model [3]))) 0 0)"
  by (simp add: BackPackGGN_full_fst get_full_ggn_contraction full_ggn_inputs_def
      ggn_contraction_def einsum_mkp_mkq_pq_def entry2_def curvature_of_def
      toy_engine_def toy_model_def toy_ggn_def)

subsection \<open>Symmetry and positive semidefiniteness\<close>





lemma toy_ef_full_runs:
  "\<exists>l H. fst (BackPackEF_full toy_engine (toy_ef False) [1, 2] [3, 5] w) = Inr (l, H) \<and>
     l = 1 \<and> nrows H = 2 \<and> at2 H 0 0 = 5 / 2 \<and> at2 H 0 1 = 3 / 2 \<and> at2 H 1 1 = 1"
  by (simp add: BackPackEF_full_fst torch_cat_dim1_def matmul_def transpose2_def smul2_def
      selected_model_def torch_module.truncate_def unscaled_loss_def
      toy_ef_def toy_engine_def toy_model_def sum_lessThan_2)









subsection \<open>The empirical Fisher: diagonal and full matrix\<close>

lemma sum_grad_squared_of_sel:
  "numel (sum_grad_squared_of t) = ncols t"
  "at1 (sum_grad_squared_of t) j = (\<Sum>m<nrows t. (at2 t m j)\<^sup>2)"
  by (simp_all add: sum_grad_squared_of_def)

lemma cat_at1_sum_grad_squared:
  "\<forall>t\<in>set ts. nrows t = M \<Longrightarrow>
     cat_at1 (map sum_grad_squared_of ts) j = (\<Sum>m<M. (cat_at2 ts m j)\<^sup>2)"
proof (induction ts arbitrary: j)
  case Nil
  show ?case by simp
next
  case (Cons t ts)
  then have M: "nrows t = M" and rest: "\<forall>t\<in>set ts. nrows t = M"
    by simp_all
  show ?case
  proof (cases "j < ncols t")
    case True
    then show ?thesis by (simp add: sum_grad_squared_of_sel M)
  next
    case False
    then show ?thesis using Cons.IH [OF rest, of "j - ncols t"]
      by (simp add: sum_grad_squared_of_sel)
  qed
qed

lemma torch_cat_dim1_Inr:
  assumes "torch_cat_dim1 ts = Inr Gs"
  shows "ts \<noteq> []" and "\<forall>t\<in>set ts. nrows t = nrows Gs"
    and "ncols Gs = sum_list (map ncols ts)" and "at2 Gs = cat_at2 ts"
proof -
  show ne: "ts \<noteq> []"
    using assms by (cases "ts = []") (simp_all add: torch_cat_dim1_def)
  have ok: "\<not> list_ex (\<lambda>t. nrows t \<noteq> nrows (hd ts)) ts"
    using assms ne by (cases "list_ex (\<lambda>t. nrows t \<noteq> nrows (hd ts)) ts")
      (simp_all add: torch_cat_dim1_def)
  from assms ne ok
  have Gs: "Gs = \<lparr>nrows = nrows (hd ts), ncols = sum_list (map ncols ts), at2 = cat_at2 ts\<rparr>"
    by (simp add: torch_cat_dim1_def)
  from ok have "\<forall>t\<in>set ts. nrows t = nrows (hd ts)"
    by (simp add: list_ex_iff)
  then show "\<forall>t\<in>set ts. nrows t = nrows Gs"
    by (simp add: Gs)
  show "ncols Gs = sum_list (map ncols ts)" and "at2 Gs = cat_at2 ts"
    by (simp_all add: Gs)
qed

text \<open>
  \<open>full\<close> returns whenever the module has a parameter and the engine delivers one row of
  gradients per example.
\<close>

lemma matmul_transpose_self:
  "matmul (transpose2 Gs) Gs =
     Inr \<lparr>nrows = ncols Gs, ncols = ncols Gs,
          at2 = \<lambda>i j. \<Sum>m<nrows Gs. at2 Gs m i * at2 Gs m j\<rparr>"
  by (simp add: matmul_def transpose2_def)

lemma torch_cat_dim1_returns:
  assumes "ts \<noteq> []" and "\<forall>t\<in>set ts. nrows t = M"
  shows "torch_cat_dim1 ts =
           Inr \<lparr>nrows = M, ncols = sum_list (map ncols ts), at2 = cat_at2 ts\<rparr>"
proof -
  from assms have "hd ts \<in> set ts" by simp
  with assms(2) have hd: "nrows (hd ts) = M" by blast
  from assms(2) hd have "\<not> list_ex (\<lambda>t. nrows t \<noteq> nrows (hd ts)) ts"
    by (simp add: list_ex_iff)
  with assms(1) hd show ?thesis by (simp add: torch_cat_dim1_def)
qed

lemma BackPackEF_full_returns:
  assumes "parameters (selected_model s) \<noteq> []"
    and "\<forall>p\<in>set (parameters (selected_model s)).
           nrows (grad_batch_of E (model s) (lossfunc s) X y p) = length X"
  shows "\<exists>l H. fst (BackPackEF_full E s X y w) = Inr (l, H)"
proof -
  let ?ts = "map (grad_batch_of E (model s) (lossfunc s) X y) (parameters (selected_model s))"
  from assms(1) have ne: "?ts \<noteq> []" by simp
  from assms(2) have rows: "\<forall>t\<in>set ?ts. nrows t = length X" by simp
  show ?thesis
    by (simp add: BackPackEF_full_fst torch_cat_dim1_returns [OF ne rows] matmul_transpose_self)
qed

text \<open>
  In exact arithmetic, and with the quantity of \<open>SumGradSquared\<close> read as the sum of the
  squared \<open>BatchGrad\<close> entries: when \<open>full\<close> of the empirical-Fisher family returns a
  matrix for a batch, \<open>diag\<close> of the same interface returns, for the same batch, the same
  loss and the diagonal of that matrix. Whether the two float32 tensors of the program
  agree bit for bit is decided by how BackPACK and torch round and accumulate inside
  \<open>SumGradSquared\<close> and \<open>@\<close>, which this development does not describe.
\<close>

lemma ef_diag_is_diagonal_of_full:
  assumes "fst (BackPackEF_full E s X y w) = Inr (l, H)"
  shows "\<exists>d Gs. fst (BackPackEF_diag E s X y w') = Inr (l, d) \<and>
           stacked_gradients E s X y = Inr Gs \<and>
           numel d = nrows H \<and> numel d = ncols H \<and>
           (\<forall>p<numel d. at1 d p = at2 H p p \<and>
                         at1 d p = factor s * (\<Sum>m<nrows Gs. (at2 Gs m p)\<^sup>2))"
proof -
  let ?ps = "parameters (selected_model s)"
  let ?gb = "grad_batch_of E (model s) (lossfunc s) X y"
  from assms obtain Gs H0 where Gs: "torch_cat_dim1 (map ?gb ?ps) = Inr Gs"
    and H0: "matmul (transpose2 Gs) Gs = Inr H0"
    and l: "l = factor s * unscaled_loss E s X y" and H: "H = smul2 (factor s) H0"
    by (auto simp add: BackPackEF_full_fst split: sum.splits)
  note cat = torch_cat_dim1_Inr [OF Gs]
  from H0 have H0': "H0 = \<lparr>nrows = ncols Gs, ncols = ncols Gs,
       at2 = \<lambda>i j. \<Sum>m<nrows Gs. at2 Gs m i * at2 Gs m j\<rparr>"
    by (simp add: matmul_def transpose2_def split: if_splits)
  let ?d0 = "\<lparr>numel = sum_list (map numel (map sum_grad_squared_of (map ?gb ?ps))),
              at1 = cat_at1 (map sum_grad_squared_of (map ?gb ?ps))\<rparr>"
  have d0: "torch_cat (map (\<lambda>p. sum_grad_squared_of (?gb p)) ?ps) = Inr ?d0"
    using cat(1) by (simp add: torch_cat_def comp_def)
  have "cat_at1 (map sum_grad_squared_of (map ?gb ?ps)) p
          = (\<Sum>m<nrows Gs. (cat_at2 (map ?gb ?ps) m p)\<^sup>2)" for p
    by (rule cat_at1_sum_grad_squared [OF cat(2)])
  then have entries: "at1 ?d0 p = (\<Sum>m<nrows Gs. (at2 Gs m p)\<^sup>2)" for p
    by (simp add: cat(4))
  have size: "numel ?d0 = ncols Gs"
    using cat(3) by (simp add: comp_def sum_grad_squared_of_sel)
  let ?d = "smul1 (factor s) ?d0"
  have diag: "fst (BackPackEF_diag E s X y w') = Inr (l, ?d)"
    using d0 l by (simp add: BackPackEF_diag_fst)
  have stack: "stacked_gradients E s X y = Inr Gs"
    using Gs by (simp add: stacked_gradients_def)
  have shape: "numel ?d = nrows H" "numel ?d = ncols H"
    using size by (simp_all add: smul1_def smul2_def H H0')
  have diagonal: "at1 ?d p = at2 H p p" for p
    using entries [of p] by (simp add: smul1_def smul2_def H H0' power2_eq_square)
  have squares: "at1 ?d p = factor s * (\<Sum>m<nrows Gs. (at2 Gs m p)\<^sup>2)" for p
    using entries [of p] by (simp add: smul1_def)
  show ?thesis
    apply (rule exI [of _ ?d])
    apply (rule exI [of _ Gs])
    apply (intro conjI allI impI)
    apply (rule diag)
    apply (rule stack)
    apply (rule shape(1))
    apply (rule shape(2))
    apply (rule diagonal)
    apply (rule squares)
    done
qed

lemma ef_diag_is_diagonal_of_full_example:
  "\<exists>l H d. fst (BackPackEF_full toy_engine (toy_ef False) [1, 2] [3, 5] toy_world) = Inr (l, H) \<and>
     fst (BackPackEF_diag toy_engine (toy_ef False) [1, 2] [3, 5] toy_world) = Inr (l, d) \<and>
     numel d = 2 \<and> at1 d 0 = 5 / 2 \<and> at1 d 1 = 1 \<and> at2 H 0 0 = 5 / 2 \<and> at2 H 1 1 = 1"
proof -
  from toy_ef_full_runs [of toy_world] obtain l H
    where full: "fst (BackPackEF_full toy_engine (toy_ef False) [1, 2] [3, 5] toy_world) = Inr (l, H)"
      and vals: "nrows H = 2" "at2 H 0 0 = 5 / 2" "at2 H 1 1 = 1"
    by blast
  from ef_diag_is_diagonal_of_full [OF full, of toy_world] obtain d
    where d: "fst (BackPackEF_diag toy_engine (toy_ef False) [1, 2] [3, 5] toy_world) = Inr (l, d)"
      "numel d = nrows H" "\<forall>p<numel d. at1 d p = at2 H p p"
    by blast
  from d(2,3) vals have "numel d = 2" "at1 d 0 = 5 / 2" "at1 d 1 = 1"
    by simp_all
  with full d(1) vals show ?thesis by blast
qed

subsection \<open>Rescaling the Kronecker factors\<close>

lemma rescale_group_two:
  "length F = 2 \<Longrightarrow> rescale_group c F = [F ! 0, smul2 c (F ! 1)]"
proof -
  assume "length F = 2"
  then obtain a b where "F = [a, b]"
    by (cases F; cases "tl F") auto
  then show ?thesis by (simp add: rescale_group_def)
qed

lemma rescale_group_other:
  "length F \<noteq> 2 \<Longrightarrow> rescale_group c F = F"
  by (simp add: rescale_group_def)

lemma smul2_one: "smul2 1 t = t"
  by (simp add: smul2_def)

lemma rescale_group_one: "rescale_group 1 F = F"
  by (simp add: rescale_group_def smul2_one)

text \<open>For \<open>N = 0\<close> the division raises as soon as a group of two factors is met.\<close>

lemma rescale_kron_factors_zero:
  "list_ex (\<lambda>F. length F = 2) (kfacs kron) \<Longrightarrow>
     rescale_kron_factors kron M 0 = Inl ZeroDivisionError"
  by (simp add: rescale_kron_factors_def)

text \<open>
  Claim C4. For a dataset size \<open>N\<close> other than zero, \<open>_rescale_kron_factors\<close> returns a
  container with the same groups, in which the second factor of every group of exactly
  two factors is multiplied by \<open>M/N\<close> and everything else is as it was; for \<open>M = N\<close>
  nothing changes. \<open>kron\<close> of the GGN family applies it with \<open>M = len(y)\<close> to the groups the
  backward pass left on the parameters, and hands the result to the scalar
  multiplication of the container.
\<close>

theorem kron_rescales_second_factor:
  assumes "N \<noteq> 0"
  shows "(\<exists>kron'. rescale_kron_factors kron M N = Inr kron' \<and>
            length (kfacs kron') = length (kfacs kron) \<and>
            (\<forall>i<length (kfacs kron).
               (length (kfacs kron ! i) = 2 \<longrightarrow>
                  kfacs kron' ! i =
                    [kfacs kron ! i ! 0, smul2 (real M / real_of_int N) (kfacs kron ! i ! 1)]) \<and>
               (length (kfacs kron ! i) \<noteq> 2 \<longrightarrow> kfacs kron' ! i = kfacs kron ! i)) \<and>
            (int M = N \<longrightarrow> kron' = kron)) \<and>
         fst (BackPackGGN_kron E g X y N w) =
           map_sum id (\<lambda>K. (factor g * unscaled_loss E g X y, Kron_rmul E (factor g) K))
             (rescale_kron_factors
                \<lparr>kfacs = map (kron_quantity E g X y w) (parameters (selected_model g))\<rparr>
                (length y) N)"
proof -
  let ?c = "real M / real_of_int N"
  let ?K = "kron\<lparr>kfacs := map (rescale_group ?c) (kfacs kron)\<rparr>"
  have res: "rescale_kron_factors kron M N = Inr ?K"
    using assms by (simp add: rescale_kron_factors_def)
  have len: "length (kfacs ?K) = length (kfacs kron)"
    by simp
  have two: "kfacs ?K ! i = [kfacs kron ! i ! 0, smul2 ?c (kfacs kron ! i ! 1)]"
    if "i < length (kfacs kron)" "length (kfacs kron ! i) = 2" for i
    using that by (simp add: rescale_group_two)
  have other: "kfacs ?K ! i = kfacs kron ! i"
    if "i < length (kfacs kron)" "length (kfacs kron ! i) \<noteq> 2" for i
    using that by (simp add: rescale_group_other)
  have same: "?K = kron" if "int M = N"
  proof -
    from that assms have "?c = 1" by auto
    moreover have "map (rescale_group 1) (kfacs kron) = kfacs kron"
      by (rule map_idI) (rule rescale_group_one)
    ultimately show ?thesis by simp
  qed
  have kron: "fst (BackPackGGN_kron E g X y N w) =
           map_sum id (\<lambda>K. (factor g * unscaled_loss E g X y, Kron_rmul E (factor g) K))
             (rescale_kron_factors
                \<lparr>kfacs = map (kron_quantity E g X y w) (parameters (selected_model g))\<rparr>
                (length y) N)"
    by (simp add: BackPackGGN_kron_fst split: sum.splits)
  have "\<exists>kron'. rescale_kron_factors kron M N = Inr kron' \<and>
            length (kfacs kron') = length (kfacs kron) \<and>
            (\<forall>i<length (kfacs kron).
               (length (kfacs kron ! i) = 2 \<longrightarrow>
                  kfacs kron' ! i =
                    [kfacs kron ! i ! 0, smul2 ?c (kfacs kron ! i ! 1)]) \<and>
               (length (kfacs kron ! i) \<noteq> 2 \<longrightarrow> kfacs kron' ! i = kfacs kron ! i)) \<and>
            (int M = N \<longrightarrow> kron' = kron)"
    apply (rule exI [of _ ?K])
    apply (intro conjI allI impI)
        apply (rule res)
       apply (rule len)
      apply (erule (1) two)
     apply (erule (1) other)
    apply (erule same)
    done
  with kron show ?thesis by (rule conjI [rotated])
qed

theorem kron_rescales_second_factor_witness:
  "(4::int) \<noteq> 0 \<and>
   (\<exists>kron'. rescale_kron_factors
               \<lparr>kfacs = [[toy_factor_A, toy_factor_B], [toy_factor_B]]\<rparr> 2 4 = Inr kron' \<and>
      length (kfacs kron') = 2 \<and>
      kfacs kron' ! 0 ! 0 = toy_factor_A \<and>
      at2 (kfacs kron' ! 0 ! 1) 0 0 = 2 \<and>
      kfacs kron' ! 1 = [toy_factor_B])"
proof -
  let ?kron = "\<lparr>kfacs = [[toy_factor_A, toy_factor_B], [toy_factor_B]]\<rparr>"
  have N: "(4::int) \<noteq> 0" by simp
  from kron_rescales_second_factor [OF N, of ?kron 2]
  obtain kron' where res: "rescale_kron_factors ?kron 2 4 = Inr kron'"
    and len: "length (kfacs kron') = length (kfacs ?kron)"
    and groups: "\<forall>i<length (kfacs ?kron).
       (length (kfacs ?kron ! i) = 2 \<longrightarrow>
          kfacs kron' ! i =
            [kfacs ?kron ! i ! 0, smul2 (real 2 / real_of_int 4) (kfacs ?kron ! i ! 1)]) \<and>
       (length (kfacs ?kron ! i) \<noteq> 2 \<longrightarrow> kfacs kron' ! i = kfacs ?kron ! i)"
    by blast
  from groups [rule_format, of 0]
  have first: "kfacs kron' ! 0 = [toy_factor_A, smul2 (1 / 2) toy_factor_B]"
    by simp
  from groups [rule_format, of 1]
  have second: "kfacs kron' ! 1 = [toy_factor_B]"
    by simp
  from first have "kfacs kron' ! 0 ! 0 = toy_factor_A" "at2 (kfacs kron' ! 0 ! 1) 0 0 = 2"
    by (simp_all add: smul2_def toy_factor_B_def)
  moreover from len have "length (kfacs kron') = 2" by simp
  ultimately show ?thesis using N res second by blast
qed

subsection \<open>The last layer\<close>

lemma selected_model_last_layer:
  "selected_model (s\<lparr>last_layer := True\<rparr>) = model_last_layer (model s)"
  "parameters (selected_model (s\<lparr>last_layer := False\<rparr>)) = parameters (model s)"
  by (simp_all add: selected_model_def torch_module.truncate_def)

lemma quantities_last_layer:
  "unscaled_loss E (s\<lparr>last_layer := b\<rparr>) X y = unscaled_loss E s X y"
  "diag_ggn_quantity E (g\<lparr>last_layer := b\<rparr>) X y w = diag_ggn_quantity E g X y w"
  "kron_quantity E (g\<lparr>last_layer := b\<rparr>) X y w = kron_quantity E g X y w"
  by (simp_all add: unscaled_loss_def diag_ggn_quantity_def kron_quantity_def)

lemma toy_last_layer_update:
  "(toy_ggn False False)\<lparr>last_layer := b\<rparr> = toy_ggn b False"
  "(toy_ef False)\<lparr>last_layer := b\<rparr> = toy_ef b"
  by (simp_all add: toy_ggn_def toy_ef_def)

lemma toy_selectors:
  "model (toy_ggn b st) = toy_model" "factor (toy_ggn b st) = 1 / 2"
  "lossfunc (toy_ggn b st) = MSELoss Reduction_sum"
  "model (toy_ef b) = toy_model" "factor (toy_ef b) = 1 / 2"
  "lossfunc (toy_ef b) = MSELoss Reduction_sum"
  "parameters toy_model = [0, 1]" "parameters (model_last_layer toy_model) = [1]"
  "lossfunc_call toy_engine lf (forward toy_model [3]) [5] = 1"
  by (simp_all add: toy_ggn_def toy_ef_def toy_model_def toy_engine_def)

text \<open>
  Claim C9. With \<open>last_layer\<close> set, \<open>diag\<close> and \<open>kron\<close> of the GGN family and \<open>diag\<close> and
  \<open>full\<close> of the empirical-Fisher family return the factor times the loss of the whole
  model's output on \<open>X\<close>, and a curvature assembled from the parameters of the last
  layer only; without \<open>last_layer\<close> the same interface returns, on the same batch, the
  same loss and a curvature assembled from all parameters of the model. Where the
  assembly fails, both the loss and the curvature are replaced by the error.
\<close>

theorem last_layer_restricts_curvature_not_loss:
  "fst (BackPackGGN_diag E (g\<lparr>last_layer := True\<rparr>) X y w) =
     map_sum id
       (\<lambda>d. (factor g * lossfunc_call E (lossfunc g) (forward (model g) X) y,
             smul1 (factor g) d))
       (torch_cat (map (diag_ggn_quantity E g X y w)
                     (parameters (model_last_layer (model g))))) \<and>
   fst (BackPackGGN_diag E (g\<lparr>last_layer := False\<rparr>) X y w) =
     map_sum id
       (\<lambda>d. (factor g * lossfunc_call E (lossfunc g) (forward (model g) X) y,
             smul1 (factor g) d))
       (torch_cat (map (diag_ggn_quantity E g X y w) (parameters (model g)))) \<and>
   fst (BackPackGGN_kron E (g\<lparr>last_layer := True\<rparr>) X y N w) =
     map_sum id
       (\<lambda>K. (factor g * lossfunc_call E (lossfunc g) (forward (model g) X) y,
             Kron_rmul E (factor g) K))
       (rescale_kron_factors
          \<lparr>kfacs = map (kron_quantity E g X y w) (parameters (model_last_layer (model g)))\<rparr>
          (length y) N) \<and>
   fst (BackPackGGN_kron E (g\<lparr>last_layer := False\<rparr>) X y N w) =
     map_sum id
       (\<lambda>K. (factor g * lossfunc_call E (lossfunc g) (forward (model g) X) y,
             Kron_rmul E (factor g) K))
       (rescale_kron_factors
          \<lparr>kfacs = map (kron_quantity E g X y w) (parameters (model g))\<rparr>
          (length y) N) \<and>
   fst (BackPackEF_diag E (s\<lparr>last_layer := True\<rparr>) X y w) =
     map_sum id
       (\<lambda>d. (factor s * lossfunc_call E (lossfunc s) (forward (model s) X) y,
             smul1 (factor s) d))
       (torch_cat (map (\<lambda>p. sum_grad_squared_of (grad_batch_of E (model s) (lossfunc s) X y p))
                     (parameters (model_last_layer (model s))))) \<and>
   fst (BackPackEF_diag E (s\<lparr>last_layer := False\<rparr>) X y w) =
     map_sum id
       (\<lambda>d. (factor s * lossfunc_call E (lossfunc s) (forward (model s) X) y,
             smul1 (factor s) d))
       (torch_cat (map (\<lambda>p. sum_grad_squared_of (grad_batch_of E (model s) (lossfunc s) X y p))
                     (parameters (model s)))) \<and>
   fst (BackPackEF_full E (s\<lparr>last_layer := True\<rparr>) X y w) =
     map_sum id
       (\<lambda>H. (factor s * lossfunc_call E (lossfunc s) (forward (model s) X) y,
             smul2 (factor s) H))
       (gram (torch_cat_dim1 (map (grad_batch_of E (model s) (lossfunc s) X y)
                                (parameters (model_last_layer (model s)))))) \<and>
   fst (BackPackEF_full E (s\<lparr>last_layer := False\<rparr>) X y w) =
     map_sum id
       (\<lambda>H. (factor s * lossfunc_call E (lossfunc s) (forward (model s) X) y,
             smul2 (factor s) H))
       (gram (torch_cat_dim1 (map (grad_batch_of E (model s) (lossfunc s) X y)
                                (parameters (model s)))))"
  by (simp add: BackPackGGN_diag_fst BackPackGGN_kron_fst BackPackEF_diag_fst
      BackPackEF_full_fst selected_model_last_layer quantities_last_layer
      unscaled_loss_def gram_def split: sum.splits)

theorem last_layer_restricts_curvature_not_loss_witness:
  "map_sum id (\<lambda>r. (fst r, numel (snd r)))
     (fst (BackPackGGN_diag toy_engine (toy_ggn True False) [3] [5] toy_world))
       = Inr (1 / 2, 1) \<and>
   map_sum id (\<lambda>r. (fst r, numel (snd r)))
     (fst (BackPackGGN_diag toy_engine (toy_ggn False False) [3] [5] toy_world))
       = Inr (1 / 2, 2) \<and>
   map_sum id (\<lambda>r. (fst r, length (kfacs (snd r))))
     (fst (BackPackGGN_kron toy_engine (toy_ggn True False) [3] [5] 4 toy_world))
       = Inr (1 / 2, 1) \<and>
   map_sum id (\<lambda>r. (fst r, length (kfacs (snd r))))
     (fst (BackPackGGN_kron toy_engine (toy_ggn False False) [3] [5] 4 toy_world))
       = Inr (1 / 2, 2) \<and>
   map_sum id (\<lambda>r. (fst r, numel (snd r)))
     (fst (BackPackEF_diag toy_engine (toy_ef True) [3] [5] toy_world))
       = Inr (1 / 2, 1) \<and>
   map_sum id (\<lambda>r. (fst r, numel (snd r)))
     (fst (BackPackEF_diag toy_engine (toy_ef False) [3] [5] toy_world))
       = Inr (1 / 2, 2) \<and>
   map_sum id (\<lambda>r. (fst r, nrows (snd r)))
     (fst (BackPackEF_full toy_engine (toy_ef True) [3] [5] toy_world))
       = Inr (1 / 2, 1) \<and>
   map_sum id (\<lambda>r. (fst r, nrows (snd r)))
     (fst (BackPackEF_full toy_engine (toy_ef False) [3] [5] toy_world))
       = Inr (1 / 2, 2)"
proof -
  note inst = last_layer_restricts_curvature_not_loss
    [of toy_engine "toy_ggn False False" "[3]" "[5]" toy_world 4 "toy_ef False",
     unfolded toy_last_layer_update toy_selectors]
  have quantities:
    "kron_quantity toy_engine (toy_ggn False False) [3] [5] toy_world
       = (\<lambda>p. if p = 0 then [toy_factor_A, toy_factor_B] else [toy_factor_B])"
    "diag_ggn_quantity toy_engine (toy_ggn False False) [3] [5] toy_world
       = (\<lambda>p. \<lparr>numel = 1, at1 = \<lambda>j. if p = 0 then 10 else 4\<rparr>)"
    "grad_batch_of toy_engine toy_model (MSELoss Reduction_sum) [3] [5]
       = (\<lambda>p. \<lparr>nrows = 1, ncols = 1, at2 = \<lambda>m j. if p = 0 then [3] ! m else 1\<rparr>)"
    by (simp_all add: kron_quantity_def diag_ggn_quantity_def toy_ggn_def toy_engine_def)
  have rmul: "Kron_rmul toy_engine c K = K\<lparr>kfacs := map (map (smul2 c)) (kfacs K)\<rparr>" for c K
    by (simp add: toy_engine_def)
  note eqs =
    inst [THEN conjunct1]
    inst [THEN conjunct2, THEN conjunct1]
    inst [THEN conjunct2, THEN conjunct2, THEN conjunct1]
    inst [THEN conjunct2, THEN conjunct2, THEN conjunct2, THEN conjunct1]
    inst [THEN conjunct2, THEN conjunct2, THEN conjunct2, THEN conjunct2, THEN conjunct1]
    inst [THEN conjunct2, THEN conjunct2, THEN conjunct2, THEN conjunct2, THEN conjunct2, THEN conjunct1]
    inst [THEN conjunct2, THEN conjunct2, THEN conjunct2, THEN conjunct2, THEN conjunct2, THEN conjunct2, THEN conjunct1]
    inst [THEN conjunct2, THEN conjunct2, THEN conjunct2, THEN conjunct2, THEN conjunct2, THEN conjunct2, THEN conjunct2]
  show ?thesis
    by (simp add: eqs quantities rmul torch_cat_def torch_cat_dim1_def gram_def matmul_def
        transpose2_def rescale_kron_factors_def smul1_def smul2_def sum_grad_squared_of_def)
qed

end
